theory Spec2Isabelle
  imports Complex_Main
begin

section \<open>JavaScript objects and completions\<close>

text \<open>
  A plain JavaScript object is an association list with distinct keys, in insertion order.
  Assigning a property replaces the stored entry where the key exists and appends one
  where it does not; a spread \<^verbatim>\<open>{...a, ...b}\<close> assigns the entries of \<open>b\<close>, in their
  order, to a copy of \<open>a\<close>.
\<close>

fun obj_set :: "string \<Rightarrow> 'v \<Rightarrow> (string \<times> 'v) list \<Rightarrow> (string \<times> 'v) list" where
  "obj_set k v [] = [(k, v)]"
| "obj_set k v ((k', v') # es) =
     (if k = k' then (k, v) # es else (k', v') # obj_set k v es)"

fun obj_spread :: "(string \<times> 'v) list \<Rightarrow> (string \<times> 'v) list \<Rightarrow> (string \<times> 'v) list" where
  "obj_spread target [] = target"
| "obj_spread target ((k, v) # es) = obj_spread (obj_set k v target) es"

text \<open>
  What a call leaves behind: an \<^verbatim>\<open>async\<close> function fulfils its promise with a result or
  rejects it with the error that was thrown.
\<close>

datatype js_error = Error string | ReferenceError string

datatype 'a outcome = Fulfilled 'a | Rejected js_error

section \<open>utils/authFetch.js\<close>

record response =
  status :: int
  response_text :: string

record fetch_options =
  http_method :: "string option"
  body :: "string option"
  headers :: "(string \<times> string) list"

text \<open>
  \<^verbatim>\<open>const API_BASE_URL = import.meta.env.VITE_API_URL || 'http://127.0.0.1:8000'\<close>:
  the variable when it is a non-empty string, the default otherwise.
\<close>

definition API_BASE_URL :: "string option \<Rightarrow> string" where
  "API_BASE_URL vite_api_url =
     (case vite_api_url of
        None \<Rightarrow> ''http://127.0.0.1:8000''
      | Some u \<Rightarrow> if u = [] then ''http://127.0.0.1:8000'' else u)"

text \<open>
  The headers built by \<open>authFetch\<close>: the content type, overridden by the caller's headers,
  then the bearer token when \<^verbatim>\<open>localStorage.getItem('authToken')\<close> is truthy (neither
  \<^verbatim>\<open>null\<close> nor the empty string).
\<close>

definition auth_headers :: "string option \<Rightarrow> fetch_options \<Rightarrow> (string \<times> string) list" where
  "auth_headers token options =
     (let hs = obj_spread [(''Content-Type'', ''application/json'')] (headers options)
      in case token of
           None \<Rightarrow> hs
         | Some t \<Rightarrow> if t = [] then hs else obj_set ''Authorization'' (''Bearer '' @ t) hs)"

text \<open>
  \<open>authFetch\<close> takes the environment it reads (the configured base URL, the browser's
  \<^verbatim>\<open>fetch\<close>, the stored token) and returns how its promise settles together with the
  events it dispatched on \<^verbatim>\<open>window\<close>. A \<^verbatim>\<open>fetch\<close> that rejects propagates through the
  \<^verbatim>\<open>await\<close>.
\<close>

definition authFetch ::
  "string option \<Rightarrow> (string \<Rightarrow> fetch_options \<Rightarrow> response outcome) \<Rightarrow> string option \<Rightarrow>
   string \<Rightarrow> fetch_options \<Rightarrow> response outcome \<times> string list" where
  "authFetch vite_api_url fetch token url options =
     (case fetch (API_BASE_URL vite_api_url @ url)
             (options\<lparr>headers := auth_headers token options\<rparr>) of
        Rejected err \<Rightarrow> (Rejected err, [])
      | Fulfilled resp \<Rightarrow>
          if status resp = 401
          then (Rejected (Error ''Session expired.''), [''sessionExpired''])
          else (Fulfilled resp, []))"

section \<open>components/RegistrationForm.jsx\<close>

text \<open>
  The identifiers bound where the body of \<open>handleSubmit\<close> runs: the module's imports, the
  component and its parameter, the state declared by the \<^verbatim>\<open>useState\<close> calls that are
  not commented out (lines 6 to 8), the handler and its parameter. The declarations of
  \<^verbatim>\<open>name\<close>/\<^verbatim>\<open>setName\<close> (line 5) and \<^verbatim>\<open>success\<close>/\<^verbatim>\<open>setSuccess\<close> (line 9) are
  comments, so they bind nothing. The file is an ES module, which runs in strict mode,
  and the browser's global object has no property of the names the handler uses.
\<close>

definition RegistrationForm_scope :: "string list" where
  "RegistrationForm_scope =
     [''useState'', ''registerUser'', ''RegistrationForm'', ''onRegisterSuccess'',
      ''email'', ''setEmail'', ''password'', ''setPassword'', ''error'', ''setError'',
      ''handleSubmit'', ''e'']"

datatype effect =
    PreventDefault
  | SetError "string option"
  | SetSuccess bool
  | RegisterUser string string
  | OnRegisterSuccess

text \<open>
  A step of the handler maps the effects so far to a completion (\<open>Inl\<close> the error thrown)
  and the effects after it. Calling a function through an identifier first resolves the
  identifier: one that no enclosing scope binds throws a \<^verbatim>\<open>ReferenceError\<close> and the call
  does not happen.
\<close>

type_synonym step = "effect list \<Rightarrow> (js_error + unit) \<times> effect list"

definition call :: "string list \<Rightarrow> string \<Rightarrow> effect \<Rightarrow> step" where
  "call scope name eff tr =
     (if name \<in> set scope then (Inr (), tr @ [eff]) else (Inl (ReferenceError name), tr))"

definition call_throwing :: "string list \<Rightarrow> string \<Rightarrow> effect \<Rightarrow> js_error option \<Rightarrow> step" where
  "call_throwing scope name eff failure tr =
     (if name \<in> set scope
      then (case failure of None \<Rightarrow> (Inr (), tr @ [eff]) | Some err \<Rightarrow> (Inl err, tr @ [eff]))
      else (Inl (ReferenceError name), tr))"

definition seq :: "step \<Rightarrow> step \<Rightarrow> step" where
  "seq s1 s2 tr = (case s1 tr of (Inl err, tr') \<Rightarrow> (Inl err, tr') | (Inr _, tr') \<Rightarrow> s2 tr')"

definition try_catch :: "step \<Rightarrow> (js_error \<Rightarrow> step) \<Rightarrow> step" where
  "try_catch block handler tr =
     (case block tr of (Inl err, tr') \<Rightarrow> handler err tr' | (Inr u, tr') \<Rightarrow> (Inr u, tr'))"

fun error_message :: "js_error \<Rightarrow> string" where
  "error_message (Error m) = m"
| "error_message (ReferenceError name) = name @ '' is not defined''"

text \<open>
  \<open>handleSubmit\<close>, statement by statement. \<open>api\<close> is what the backend does with a
  registration: \<open>None\<close> when \<open>registerUser\<close> resolves, the error it rejects with otherwise.
\<close>

definition handleSubmit :: "string list \<Rightarrow> (string \<Rightarrow> string \<Rightarrow> js_error option) \<Rightarrow> string \<Rightarrow> string \<Rightarrow> step" where
  "handleSubmit scope api email password =
     seq (call scope ''e'' PreventDefault)
    (seq (call scope ''setError'' (SetError None))
    (seq (call scope ''setSuccess'' (SetSuccess False))
         (try_catch
            (seq (call_throwing scope ''registerUser'' (RegisterUser email password)
                    (api email password))
                 (call scope ''onRegisterSuccess'' OnRegisterSuccess))
            (\<lambda>err. call scope ''setError'' (SetError (Some (error_message err)))))))"

fun is_RegisterUser :: "effect \<Rightarrow> bool" where
  "is_RegisterUser (RegisterUser _ _) = True"
| "is_RegisterUser _ = False"

fun sets_error_message :: "effect \<Rightarrow> bool" where
  "sets_error_message (SetError (Some _)) = True"
| "sets_error_message _ = False"

section \<open>tracking/claritytracking-tracker.js\<close>

subsection \<open>JavaScript values\<close>

text \<open>
  The values the tracker handles. Numbers are exact rationals (\<^verbatim>\<open>NaN\<close> and the
  infinities are not represented; the tracker computes none). An array or a function
  passed by a caller is not represented either. The order of an object's keys stands for
  insertion order; no property below depends on it.
\<close>

datatype jsval =
    JUndefined
  | JNull
  | JBool bool
  | JNum rat
  | JStr string
  | JObj "(string \<times> jsval) list"

fun truthy :: "jsval \<Rightarrow> bool" where
  "truthy JUndefined = False"
| "truthy JNull = False"
| "truthy (JBool b) = b"
| "truthy (JNum n) = (n \<noteq> 0)"
| "truthy (JStr s) = (s \<noteq> [])"
| "truthy (JObj es) = True"

text \<open>\<^verbatim>\<open>a || b\<close>\<close>

definition js_or :: "jsval \<Rightarrow> jsval \<Rightarrow> jsval" where
  "js_or a b = (if truthy a then a else b)"

text \<open>Decimal printing of an integer, as string concatenation with a number does.\<close>

definition digit :: "nat \<Rightarrow> char" where
  "digit d = ''0123456789'' ! d"

function show_digits :: "int \<Rightarrow> string" where
  "show_digits n =
     (if n < 10 then [digit (nat n)] else show_digits (n div 10) @ [digit (nat (n mod 10))])"
  by pat_completeness auto
termination
  by (relation "measure nat") auto

declare show_digits.simps [simp del]

definition show_int :: "int \<Rightarrow> string" where
  "show_int i = (if i < 0 then ''-'' @ show_digits (- i) else show_digits i)"

text \<open>
  The own enumerable properties of a value, as \<^verbatim>\<open>Object.entries\<close> and object spread
  read them: the entries of an object, the indexed characters of a string, nothing for
  the other primitives. (\<^verbatim>\<open>Object.entries\<close> throws on \<^verbatim>\<open>undefined\<close> and \<^verbatim>\<open>null\<close>;
  the tracker calls it only on objects and, in \<open>sendEvent\<close>, behind a truthiness test.)
\<close>

fun indexed_chars :: "nat \<Rightarrow> string \<Rightarrow> (string \<times> jsval) list" where
  "indexed_chars i [] = []"
| "indexed_chars i (c # cs) = (show_int (int i), JStr [c]) # indexed_chars (Suc i) cs"

fun entries_of :: "jsval \<Rightarrow> (string \<times> jsval) list" where
  "entries_of (JObj es) = es"
| "entries_of (JStr s) = indexed_chars 0 s"
| "entries_of _ = []"

text \<open>\<^verbatim>\<open>String.prototype.split\<close> with a non-empty separator string.\<close>

function split_from :: "string \<Rightarrow> string \<Rightarrow> string \<Rightarrow> string list" where
  "split_from sep piece [] = [rev piece]"
| "split_from sep piece (c # cs) =
     (if sep \<noteq> [] \<and> take (length sep) (c # cs) = sep
      then rev piece # split_from sep [] (drop (length sep) (c # cs))
      else split_from sep (c # piece) cs)"
  by pat_completeness auto
termination
  by (relation "measure (\<lambda>(sep, piece, s). length s)") auto

definition js_split :: "string \<Rightarrow> string \<Rightarrow> string list" where
  "js_split s sep = split_from sep [] s"

subsection \<open>The browser the tracker reads\<close>

record browser =
  document_cookie :: string
  search_params_get :: "string \<Rightarrow> string option"
  document_referrer :: string
  navigator_userAgent :: string
  location_href :: string
  date_now_track :: int
  date_now_id :: int
  random_base36 :: string

text \<open>
  \<open>search_params_get\<close> is \<^verbatim>\<open>new URLSearchParams(window.location.search).get\<close>
  (\<open>None\<close> for \<^verbatim>\<open>null\<close>); \<open>date_now_track\<close> and \<open>date_now_id\<close> are the two readings of
  \<^verbatim>\<open>Date.now()\<close>, in \<open>track\<close> and in \<open>generateEventId\<close>; \<open>random_base36\<close> is
  \<^verbatim>\<open>Math.random().toString(36).substring(2, 9)\<close>.
\<close>

definition WEBSITE_ID :: string where
  "WEBSITE_ID = ''1''"

definition API_ENDPOINT :: string where
  "API_ENDPOINT = ''/api/ingest/event''"

subsection \<open>Helper functions\<close>

definition getCookie :: "browser \<Rightarrow> string \<Rightarrow> jsval" where
  "getCookie w name =
     (let val = ''; '' @ document_cookie w;
          parts = js_split val (''; '' @ name @ ''='')
      in if length parts = 2
         then js_or (JStr (hd (js_split (last parts) '';''))) JNull
         else JNull)"

definition param_or_undefined :: "string option \<Rightarrow> jsval" where
  "param_or_undefined p = js_or (case p of None \<Rightarrow> JNull | Some s \<Rightarrow> JStr s) JUndefined"

definition getMarketingData :: "browser \<Rightarrow> (string \<times> jsval) list" where
  "getMarketingData w =
     [(''source'', param_or_undefined (search_params_get w ''source'')),
      (''utm_source'', param_or_undefined (search_params_get w ''utm_source'')),
      (''utm_medium'', param_or_undefined (search_params_get w ''utm_medium'')),
      (''utm_campaign'', param_or_undefined (search_params_get w ''utm_campaign'')),
      (''referer'', js_or (JStr (document_referrer w)) JUndefined)]"

definition generateEventId :: "browser \<Rightarrow> string" where
  "generateEventId w = ''ctracking_evt_'' @ show_int (date_now_id w) @ ''.'' @ random_base36 w"

text \<open>
  The filter both \<open>getUserData\<close> and \<open>sendEvent\<close> apply:
  \<^verbatim>\<open>Object.fromEntries(Object.entries(o).filter(([_, v]) => v !== undefined && v !== null && v !== ''))\<close>.
\<close>

definition kept :: "jsval \<Rightarrow> bool" where
  "kept v = (v \<noteq> JUndefined \<and> v \<noteq> JNull \<and> v \<noteq> JStr [])"

definition clean_entries :: "(string \<times> jsval) list \<Rightarrow> (string \<times> jsval) list" where
  "clean_entries es = filter (\<lambda>(k, v). kept v) es"

definition getUserData :: "browser \<Rightarrow> (string \<times> jsval) list" where
  "getUserData w =
     clean_entries
       (obj_spread
          [(''user_agent'', js_or (JStr (navigator_userAgent w)) JUndefined),
           (''fbp'', js_or (getCookie w ''_fbp'') JUndefined),
           (''fbc'', js_or (getCookie w ''_fbc'') JUndefined)]
          (getMarketingData w))"

subsection \<open>The data pipeline and the public function\<close>

text \<open>
  \<open>cleanedPayload\<close> is the object \<open>sendEvent\<close> hands to \<^verbatim>\<open>JSON.stringify\<close>: the event
  data without its undefined, null and empty-string fields, and with \<open>user_data\<close>, when
  it is still there and truthy, replaced by its own filtered copy.
\<close>

definition cleanedPayload :: "jsval \<Rightarrow> (string \<times> jsval) list" where
  "cleanedPayload eventData =
     (let cleaned = clean_entries (entries_of eventData)
      in case map_of cleaned ''user_data'' of
           None \<Rightarrow> cleaned
         | Some ud \<Rightarrow>
             if truthy ud
             then obj_set ''user_data'' (JObj (clean_entries (entries_of ud))) cleaned
             else cleaned)"

record ingest_request =
  endpoint :: string
  http_verb :: string
  request_headers :: "(string \<times> string) list"
  payload :: "(string \<times> jsval) list"

text \<open>
  \<open>sendEvent\<close> issues one \<^verbatim>\<open>fetch\<close>; what the server answers only changes what is
  logged, so the model returns the request. Its payload is the object given to
  \<^verbatim>\<open>JSON.stringify\<close>, which cannot throw on the values represented here.
\<close>

definition sendEvent :: "jsval \<Rightarrow> ingest_request" where
  "sendEvent eventData =
     \<lparr>endpoint = API_ENDPOINT,
      http_verb = ''POST'',
      request_headers =
        [(''Content-Type'', ''application/json''), (''X-Clarity-Token'', WEBSITE_ID)],
      payload = cleanedPayload eventData\<rparr>"

text \<open>A default parameter \<^verbatim>\<open>= {}\<close> replaces \<^verbatim>\<open>undefined\<close> only.\<close>

definition default_object :: "jsval \<Rightarrow> jsval" where
  "default_object v = (if v = JUndefined then JObj [] else v)"

definition merged_user_data :: "browser \<Rightarrow> jsval \<Rightarrow> (string \<times> jsval) list" where
  "merged_user_data w userData =
     obj_spread (obj_spread [] (getUserData w)) (entries_of (default_object userData))"

definition track :: "browser \<Rightarrow> jsval \<Rightarrow> jsval \<Rightarrow> jsval \<Rightarrow> ingest_request" where
  "track w eventName customData userData =
     sendEvent
       (JObj
          [(''event_name'', eventName),
           (''event_time'', JNum (of_int (date_now_track w div 1000))),
           (''event_id'', JStr (generateEventId w)),
           (''event_source_url'', JStr (location_href w)),
           (''user_data'', JObj (merged_user_data w userData)),
           (''custom_data'', default_object customData)])"

subsection \<open>The body schema of the ingestion endpoint, as the specification words it\<close>

text \<open>
  The keys the specification lists for \<open>user_data\<close>: email, phone, browser_id, click_id,
  user_agent, referer and any key starting with \<open>utm_\<close>.
\<close>

definition schema_user_key :: "string \<Rightarrow> bool" where
  "schema_user_key k =
     (k \<in> set [''email'', ''phone'', ''browser_id'', ''click_id'', ''user_agent'', ''referer'']
      \<or> take 4 k = ''utm_'')"

text \<open>The keys \<open>getUserData\<close> itself can produce.\<close>

definition tracker_user_keys :: "string list" where
  "tracker_user_keys =
     [''user_agent'', ''fbp'', ''fbc'', ''source'', ''utm_source'', ''utm_medium'',
      ''utm_campaign'', ''referer'']"

text \<open>
  The payload the claim describes: a string \<open>event_name\<close>, a whole-number
  \<open>event_time\<close>, a non-empty string \<open>event_id\<close>, a string \<open>event_source_url\<close>, and a
  \<open>user_data\<close> object whose keys are the schema's and whose fields are none of undefined,
  null and the empty string.
\<close>

definition claimed_payload :: "(string \<times> jsval) list \<Rightarrow> bool" where
  "claimed_payload p =
     ((case map_of p ''event_name'' of Some (JStr n) \<Rightarrow> True | _ \<Rightarrow> False)
      \<and> (case map_of p ''event_time'' of Some (JNum t) \<Rightarrow> t = of_int (floor t) | _ \<Rightarrow> False)
      \<and> (case map_of p ''event_id'' of Some (JStr i) \<Rightarrow> i \<noteq> [] | _ \<Rightarrow> False)
      \<and> (case map_of p ''event_source_url'' of Some (JStr u) \<Rightarrow> True | _ \<Rightarrow> False)
      \<and> (case map_of p ''user_data'' of
            Some (JObj ud) \<Rightarrow> list_all (\<lambda>(k, v). schema_user_key k \<and> kept v) ud
          | _ \<Rightarrow> False))"

text \<open>A page that carries Meta's \<open>_fbp\<close> cookie, and a caller's user data.\<close>

definition pixel_page :: browser where
  "pixel_page =
     \<lparr>document_cookie = ''_fbp=fb.1.17'',
      search_params_get = (\<lambda>k. None),
      document_referrer = [],
      navigator_userAgent = ''UA'',
      location_href = ''https://shop.example/'',
      date_now_track = 1700000000999,
      date_now_id = 1700000001000,
      random_base36 = ''k3j9x2a''\<rparr>"

definition buyer :: jsval where
  "buyer = JObj [(''email'', JStr ''a@b.c''), (''phone'', JStr [])]"

section \<open>components/AlertsDisplay.jsx\<close>

record alert =
  alert_id :: nat
  severity :: string
  title :: string
  message :: string

record alerts_state =
  alerts :: "alert list"
  isLoading :: bool
  error :: "string option"

text \<open>The three \<^verbatim>\<open>useState\<close> initial values.\<close>

definition initial_alerts_state :: alerts_state where
  "initial_alerts_state = \<lparr>alerts = [], isLoading = False, error = None\<rparr>"

text \<open>
  \<open>fetchAlerts\<close>, the effect's body, with the state after the promise of
  \<open>getWebsiteAlerts\<close> has settled: \<open>fetched\<close> is how it settles.
\<close>

definition fetchAlerts :: "jsval \<Rightarrow> alert list outcome \<Rightarrow> alerts_state \<Rightarrow> alerts_state" where
  "fetchAlerts websiteId fetched st =
     (if \<not> truthy websiteId then st
      else
        (let st1 = st\<lparr>isLoading := True\<rparr>;
             st2 = (case fetched of
                      Fulfilled data \<Rightarrow> st1\<lparr>alerts := data\<rparr>
                    | Rejected err \<Rightarrow> st1\<lparr>error := Some (error_message err)\<rparr>)
         in st2\<lparr>isLoading := False\<rparr>))"

record alert_card =
  card_key :: nat
  card_style :: string
  card_title :: string
  card_message :: string

datatype alerts_view =
    LoadingAlerts
  | AlertsError string
  | AllNominal
  | AlertCards "alert_card list"

text \<open>\<^verbatim>\<open>alertStyles[alert.severity] || alertStyles.warning\<close>\<close>

definition style_of :: "string \<Rightarrow> string" where
  "style_of sev = (if sev = ''error'' \<or> sev = ''warning'' then sev else ''warning'')"

definition AlertsDisplay :: "alerts_state \<Rightarrow> alerts_view" where
  "AlertsDisplay st =
     (if isLoading st then LoadingAlerts
      else if (case error st of None \<Rightarrow> False | Some m \<Rightarrow> m \<noteq> []) then AlertsError (the (error st))
      else if length (alerts st) = 0 then AllNominal
      else AlertCards
             (map (\<lambda>a. \<lparr>card_key = alert_id a, card_style = style_of (severity a),
                         card_title = title a, card_message = message a\<rparr>)
                (alerts st)))"

section \<open>The backend's derived metrics\<close>

text \<open>
  The backend (the FastAPI application with its event store, Health Scorer, Duplicate
  Detector and Alert Generator) is not among the sources; only its callers in the
  frontend are. The definitions of this section follow the specification.
\<close>

subsection \<open>Events\<close>

text \<open>
  Modelled from the spec: the Event of section 3 with its optional user identifiers (the
  ingestion endpoint drops empty and null fields, so a stored identifier is present or
  absent). The event store itself is missing from the sources.
\<close>

record user_identifiers =
  email :: "string option"
  phone :: "string option"
  browser_id :: "string option"
  click_id :: "string option"
  user_agent :: "string option"

record event =
  website_id :: nat
  event_name :: string
  event_id :: "string option"
  event_time :: int
  received_at :: int
  identifiers :: user_identifiers

subsection \<open>Health Scorer\<close>

text \<open>
  Modelled from the spec: the Health Scorer (section 4.3), which is missing from the
  sources. The weights and the thresholds are the named constants the specification
  asks for.
\<close>

definition EMAIL_WEIGHT :: nat where "EMAIL_WEIGHT = 3"
definition PHONE_WEIGHT :: nat where "PHONE_WEIGHT = 2"
definition BROWSER_ID_WEIGHT :: nat where "BROWSER_ID_WEIGHT = 2"
definition CLICK_ID_WEIGHT :: nat where "CLICK_ID_WEIGHT = 2"
definition USER_AGENT_WEIGHT :: nat where "USER_AGENT_WEIGHT = 1"

definition MAX_POINTS :: nat where
  "MAX_POINTS = EMAIL_WEIGHT + PHONE_WEIGHT + BROWSER_ID_WEIGHT + CLICK_ID_WEIGHT + USER_AGENT_WEIGHT"

definition HEALTHY_THRESHOLD :: rat where "HEALTHY_THRESHOLD = 7"
definition WARNING_THRESHOLD :: rat where "WARNING_THRESHOLD = 4"

text \<open>Modelled from the spec: the weight of an identifier when it is present, nothing otherwise.\<close>

definition present :: "string option \<Rightarrow> nat \<Rightarrow> nat" where
  "present field weight = (case field of None \<Rightarrow> 0 | Some _ \<Rightarrow> weight)"

text \<open>Modelled from the spec: the weighted count of the identifiers an event carries.\<close>

definition event_points :: "event \<Rightarrow> nat" where
  "event_points e =
     present (email (identifiers e)) EMAIL_WEIGHT
     + present (phone (identifiers e)) PHONE_WEIGHT
     + present (browser_id (identifiers e)) BROWSER_ID_WEIGHT
     + present (click_id (identifiers e)) CLICK_ID_WEIGHT
     + present (user_agent (identifiers e)) USER_AGENT_WEIGHT"

text \<open>Modelled from the spec: the per-event sum on the scale from 0 to 10.\<close>

definition event_score :: "event \<Rightarrow> rat" where
  "event_score e = of_nat (event_points e) / of_nat MAX_POINTS * 10"

datatype health_status = Healthy | Warning | Failing

text \<open>
  Modelled from the spec: \<open>healthy\<close> from 7, \<open>warning\<close> from 4, \<open>error\<close> below
  (\<open>Failing\<close> stands for the status \<open>error\<close>).
\<close>

definition status_of :: "rat \<Rightarrow> health_status" where
  "status_of s =
     (if HEALTHY_THRESHOLD \<le> s then Healthy
      else if WARNING_THRESHOLD \<le> s then Warning
      else Failing)"

text \<open>Modelled from the spec: the HealthMetric of section 3.\<close>

record health_metric =
  metric_event_name :: string
  emq_score :: rat
  metric_status :: health_status
  sample_count :: nat

text \<open>Modelled from the spec: the metric of one event name over its sample, the average of the events' scores.\<close>

definition metric_of :: "string \<Rightarrow> event list \<Rightarrow> health_metric" where
  "metric_of name sample =
     (let s = sum_list (map event_score sample) / of_nat (length sample)
      in \<lparr>metric_event_name = name, emq_score = s, metric_status = status_of s,
          sample_count = length sample\<rparr>)"

text \<open>
  Modelled from the spec: the events the Health Scorer considers for a website, those of
  the website within the recent-events window. The window is the implementer's choice,
  so it is a parameter: it selects the events considered from the website's events.
\<close>

definition considered_events :: "(event list \<Rightarrow> event list) \<Rightarrow> event list \<Rightarrow> nat \<Rightarrow> event list" where
  "considered_events window store wid = window (filter (\<lambda>e. website_id e = wid) store)"

text \<open>Modelled from the spec: the sample of one event name.\<close>

definition sample_of :: "(event list \<Rightarrow> event list) \<Rightarrow> event list \<Rightarrow> nat \<Rightarrow> string \<Rightarrow> event list" where
  "sample_of window store wid name =
     filter (\<lambda>e. event_name e = name) (considered_events window store wid)"

text \<open>
  Modelled from the spec: \<open>score(website_id)\<close>, one metric for each distinct event name
  observed among the events considered.
\<close>

definition score :: "(event list \<Rightarrow> event list) \<Rightarrow> event list \<Rightarrow> nat \<Rightarrow> health_metric list" where
  "score window store wid =
     map (\<lambda>name. metric_of name (sample_of window store wid name))
       (remdups (map event_name (considered_events window store wid)))"

definition sample_event :: "user_identifiers \<Rightarrow> event" where
  "sample_event ids =
     \<lparr>website_id = 7, event_name = ''Purchase'', event_id = None, event_time = 1700000000,
      received_at = 1700000001, identifiers = ids\<rparr>"

definition only_user_agent :: user_identifiers where
  "only_user_agent =
     \<lparr>email = None, phone = None, browser_id = None, click_id = None, user_agent = Some ''UA''\<rparr>"

definition all_identifiers :: user_identifiers where
  "all_identifiers =
     \<lparr>email = Some ''a@b.c'', phone = Some ''+46700000000'', browser_id = Some ''fb.1.17'',
      click_id = Some ''fb.1.18'', user_agent = Some ''UA''\<rparr>"

text \<open>A store with two purchases of website 7 and one of website 8.\<close>

definition three_purchases :: "event list" where
  "three_purchases =
     [sample_event all_identifiers, sample_event only_user_agent,
      (sample_event all_identifiers)\<lparr>website_id := 8\<rparr>]"

subsection \<open>Alert Generator\<close>

text \<open>Modelled from the spec: the DuplicateGroup of sections 3 and 4.2.\<close>

record duplicate_group =
  group_event_name :: string
  group_event_id :: string
  dup_count :: nat
  first_seen :: int
  last_seen :: int

text \<open>
  Modelled from the spec: the Alert Generator's mapping (section 4.4), which is missing
  from the sources. A metric with status \<open>error\<close> gives an alert of severity \<open>error\<close>, one
  with status \<open>warning\<close> an alert of severity \<open>warning\<close>, a healthy one none; a duplicate
  group whose count reaches the threshold gives a warning. How a score is printed is
  not specified: \<open>fmt\<close> prints it.
\<close>

definition DUPLICATE_ALERT_THRESHOLD :: nat where
  "DUPLICATE_ALERT_THRESHOLD = 3"

definition metric_alert :: "(rat \<Rightarrow> string) \<Rightarrow> health_metric \<Rightarrow> (string \<times> string \<times> string) option" where
  "metric_alert fmt m =
     (case metric_status m of
        Healthy \<Rightarrow> None
      | Warning \<Rightarrow>
          Some (''warning'', ''Low match quality: '' @ metric_event_name m,
                ''EMQ score '' @ fmt (emq_score m) @ '': missing identifiers'')
      | Failing \<Rightarrow>
          Some (''error'', ''Poor match quality: '' @ metric_event_name m,
                ''EMQ score '' @ fmt (emq_score m) @ '': missing identifiers''))"

text \<open>Modelled from the spec: the warning of a duplicate group, its message stating the count.\<close>

definition group_alert :: "duplicate_group \<Rightarrow> string \<times> string \<times> string" where
  "group_alert g =
     (''warning'', ''Duplicate events: '' @ group_event_name g,
      show_int (int (dup_count g)) @ '' events share the event id '' @ group_event_id g)"

text \<open>
  Modelled from the spec: an alert is \<open>{id, severity, title, message}\<close>; the
  specification does not say how ids are chosen, here they number the alerts.
\<close>

fun number_alerts :: "nat \<Rightarrow> (string \<times> string \<times> string) list \<Rightarrow> alert list" where
  "number_alerts i [] = []"
| "number_alerts i ((sev, t, msg) # rest) =
     \<lparr>alert_id = i, severity = sev, title = t, message = msg\<rparr> # number_alerts (Suc i) rest"

text \<open>Modelled from the spec: the alerts derived from the metrics and the duplicate groups of a website.\<close>

definition alerts_of :: "(rat \<Rightarrow> string) \<Rightarrow> nat \<Rightarrow> health_metric list \<Rightarrow> duplicate_group list \<Rightarrow> alert list" where
  "alerts_of fmt threshold metrics groups =
     number_alerts 1
       (List.map_filter (metric_alert fmt) metrics
        @ map group_alert (filter (\<lambda>g. threshold \<le> dup_count g) groups))"

text \<open>
  Modelled from the spec: the answer of \<^verbatim>\<open>GET /api/websites/{website_id}/alerts\<close> to an
  authorised request, as \<open>getWebsiteAlerts\<close> receives it: the array of alerts, a success
  also when it is empty.
\<close>

definition alerts_endpoint :: "(rat \<Rightarrow> string) \<Rightarrow> nat \<Rightarrow> health_metric list \<Rightarrow> duplicate_group list \<Rightarrow> alert list outcome" where
  "alerts_endpoint fmt threshold metrics groups = Fulfilled (alerts_of fmt threshold metrics groups)"

definition healthy_purchase :: health_metric where
  "healthy_purchase =
     \<lparr>metric_event_name = ''Purchase'', emq_score = 10, metric_status = Healthy,
      sample_count = 1\<rparr>"

definition pair_of_purchases :: duplicate_group where
  "pair_of_purchases =
     \<lparr>group_event_name = ''Purchase'', group_event_id = ''abc'', dup_count = 2,
      first_seen = 1700000000, last_seen = 1700000005\<rparr>"

section \<open>Properties of authFetch\<close>

text \<open>
  C10. Every response that \<open>authFetch\<close> hands back to its caller has a status other than
  401; and whenever the underlying fetch resolves with status 401, \<open>authFetch\<close> dispatches
  the \<open>sessionExpired\<close> event on the window and rejects with an error instead of
  returning the response.
\<close>

theorem authFetch_never_returns_401:
  "(\<forall>resp evs. authFetch vite_api_url fetch token url options = (Fulfilled resp, evs)
       \<longrightarrow> status resp \<noteq> 401)
   \<and> (\<forall>resp. fetch (API_BASE_URL vite_api_url @ url)
                (options\<lparr>headers := auth_headers token options\<rparr>) = Fulfilled resp
              \<and> status resp = 401
       \<longrightarrow> authFetch vite_api_url fetch token url options
             = (Rejected (Error ''Session expired.''), [''sessionExpired'']))"
  by (auto simp: authFetch_def split: outcome.splits if_splits)

theorem authFetch_never_returns_401_witness:
  "authFetch None (\<lambda>u opts. Fulfilled \<lparr>status = 200, response_text = ''[]''\<rparr>) (Some ''tok'')
       ''/api/websites'' \<lparr>http_method = None, body = None, headers = []\<rparr>
     = (Fulfilled \<lparr>status = 200, response_text = ''[]''\<rparr>, [])
   \<and> status \<lparr>status = 200, response_text = ''[]''\<rparr> \<noteq> 401
   \<and> authFetch None (\<lambda>u opts. Fulfilled \<lparr>status = 401, response_text = ''''\<rparr>) (Some ''tok'')
       ''/api/websites'' \<lparr>http_method = None, body = None, headers = []\<rparr>
     = (Rejected (Error ''Session expired.''), [''sessionExpired''])"
  using authFetch_never_returns_401
    [of None "\<lambda>u opts. Fulfilled \<lparr>status = 401, response_text = ''''\<rparr>" "Some ''tok''"
        "''/api/websites''" "\<lparr>http_method = None, body = None, headers = []\<rparr>"]
    authFetch_never_returns_401
    [of None "\<lambda>u opts. Fulfilled \<lparr>status = 200, response_text = ''[]''\<rparr>" "Some ''tok''"
        "''/api/websites''" "\<lparr>http_method = None, body = None, headers = []\<rparr>"]
  by (simp add: authFetch_def)

section \<open>Properties of RegistrationForm\<close>

text \<open>
  C9. Every invocation of \<open>handleSubmit\<close> throws a ReferenceError at the call of
  \<open>setSuccess\<close>, before the try block is entered: whatever the form holds and whatever
  the backend would answer, the handler has only prevented the default action and cleared
  the error, \<open>registerUser\<close> and \<open>onRegisterSuccess\<close> are never called, and no error
  message is set.
\<close>

theorem handleSubmit_throws_before_try:
  "handleSubmit RegistrationForm_scope api mail pw []
     = (Inl (ReferenceError ''setSuccess''), [PreventDefault, SetError None])
   \<and> \<not> list_ex is_RegisterUser
         (snd (handleSubmit RegistrationForm_scope api mail pw []))
   \<and> OnRegisterSuccess \<notin> set (snd (handleSubmit RegistrationForm_scope api mail pw []))
   \<and> \<not> list_ex sets_error_message
         (snd (handleSubmit RegistrationForm_scope api mail pw []))"
  by (simp add: handleSubmit_def RegistrationForm_scope_def seq_def call_def)

text \<open>
  For comparison, the same handler where the commented-out state is declared: the
  registration request is issued and the success callback runs, or the rejection's
  message is stored.
\<close>

lemma handleSubmit_with_setSuccess_declared:
  "handleSubmit (''setSuccess'' # RegistrationForm_scope) (\<lambda>m p. None) mail pw []
     = (Inr (), [PreventDefault, SetError None, SetSuccess False, RegisterUser mail pw,
                 OnRegisterSuccess])
   \<and> handleSubmit (''setSuccess'' # RegistrationForm_scope)
         (\<lambda>m p. Some (Error ''Email already registered'')) mail pw []
     = (Inr (), [PreventDefault, SetError None, SetSuccess False, RegisterUser mail pw,
                 SetError (Some ''Email already registered'')])"
  by (simp add: handleSubmit_def RegistrationForm_scope_def seq_def call_def call_throwing_def
      try_catch_def)

section \<open>Properties of the tracker\<close>

lemma map_of_obj_set:
  "map_of (obj_set k v es) k' = (if k' = k then Some v else map_of es k')"
  by (induction es) auto

lemma keys_obj_set: "fst ` set (obj_set k v es) = insert k (fst ` set es)"
  by (induction es) (force split: if_splits)+

lemma keys_obj_spread: "fst ` set (obj_spread t s) = fst ` set t \<union> fst ` set s"
  by (induction t s rule: obj_spread.induct) (auto simp: keys_obj_set)

lemma keys_clean_entries: "fst ` set (clean_entries es) \<subseteq> fst ` set es"
  by (auto simp: clean_entries_def)

lemma clean_entries_kept: "(k, v) \<in> set (clean_entries es) \<Longrightarrow> kept v"
  by (auto simp: clean_entries_def)

lemma getUserData_keys: "fst ` set (getUserData w) \<subseteq> set tracker_user_keys"
proof -
  have "fst ` set (getUserData w) \<subseteq>
        fst ` set (obj_spread
          [(''user_agent'', js_or (JStr (navigator_userAgent w)) JUndefined),
           (''fbp'', js_or (getCookie w ''_fbp'') JUndefined),
           (''fbc'', js_or (getCookie w ''_fbc'') JUndefined)]
          (getMarketingData w))"
    unfolding getUserData_def by (rule keys_clean_entries)
  also have "\<dots> \<subseteq> set tracker_user_keys"
    by (simp add: keys_obj_spread getMarketingData_def tracker_user_keys_def)
  finally show ?thesis .
qed

lemma merged_user_data_keys:
  "fst ` set (merged_user_data w userData)
     \<subseteq> set tracker_user_keys \<union> fst ` set (entries_of (default_object userData))"
  using getUserData_keys [of w]
  by (auto simp: merged_user_data_def keys_obj_spread)

lemma generateEventId_nonempty: "generateEventId w \<noteq> []"
  by (simp add: generateEventId_def)

text \<open>What \<open>track\<close> sends: the six fields filtered, then \<open>user_data\<close> filtered in place.\<close>

lemma payload_track:
  "payload (track w eventName customData userData) =
     obj_set ''user_data'' (JObj (clean_entries (merged_user_data w userData)))
       (clean_entries
          [(''event_name'', eventName),
           (''event_time'', JNum (of_int (date_now_track w div 1000))),
           (''event_id'', JStr (generateEventId w)),
           (''event_source_url'', JStr (location_href w)),
           (''user_data'', JObj (merged_user_data w userData)),
           (''custom_data'', default_object customData)])"
  by (simp add: track_def sendEvent_def cleanedPayload_def clean_entries_def kept_def)

lemma sent_event_name:
  "map_of (payload (track w eventName customData userData)) ''event_name''
     = (if kept eventName then Some eventName else None)"
  by (simp add: payload_track map_of_obj_set clean_entries_def)

lemma sent_event_time:
  "map_of (payload (track w eventName customData userData)) ''event_time''
     = Some (JNum (of_int (date_now_track w div 1000)))"
  by (simp add: payload_track map_of_obj_set clean_entries_def kept_def)

lemma sent_event_id:
  "map_of (payload (track w eventName customData userData)) ''event_id''
     = Some (JStr (generateEventId w))"
  by (simp add: payload_track map_of_obj_set clean_entries_def kept_def generateEventId_nonempty)

lemma sent_event_source_url:
  "map_of (payload (track w eventName customData userData)) ''event_source_url''
     = (if location_href w = [] then None else Some (JStr (location_href w)))"
  by (simp add: payload_track map_of_obj_set clean_entries_def kept_def generateEventId_nonempty)

lemma sent_user_data:
  "map_of (payload (track w eventName customData userData)) ''user_data''
     = Some (JObj (clean_entries (merged_user_data w userData)))"
  by (simp add: payload_track map_of_obj_set)

lemma sent_user_data_fields:
  assumes "(k, v) \<in> set (clean_entries (merged_user_data w userData))"
  shows "v \<noteq> JUndefined \<and> v \<noteq> JNull \<and> v \<noteq> JStr []
         \<and> (k \<in> set tracker_user_keys \<or> k \<in> fst ` set (entries_of (default_object userData)))"
proof -
  from assms have "kept v"
    by (rule clean_entries_kept)
  moreover from assms have "k \<in> fst ` set (merged_user_data w userData)"
    using keys_clean_entries [of "merged_user_data w userData"] by force
  then have "k \<in> set tracker_user_keys \<or> k \<in> fst ` set (entries_of (default_object userData))"
    using merged_user_data_keys [of w userData] by blast
  ultimately show ?thesis
    by (simp add: kept_def)
qed

lemma pixel_page_merged_none:
  "clean_entries (merged_user_data pixel_page JUndefined)
     = [(''user_agent'', JStr ''UA''), (''fbp'', JStr ''fb.1.17'')]"
  by code_simp

lemma pixel_page_merged_buyer:
  "clean_entries (merged_user_data pixel_page buyer)
     = [(''user_agent'', JStr ''UA''), (''fbp'', JStr ''fb.1.17''), (''email'', JStr ''a@b.c'')]"
  by code_simp

lemma pixel_page_event_id:
  "generateEventId pixel_page = ''ctracking_evt_1700000001000.k3j9x2a''"
  by code_simp

text \<open>
  C8, as the code has it. For every call of \<open>track\<close>, the object sent to the ingestion
  endpoint carries \<open>event_time\<close> as whole unix seconds (the clock's milliseconds divided
  by 1000, rounded down), the freshly generated, non-empty \<open>event_id\<close> string, the
  page's address as \<open>event_source_url\<close> unless it is empty, \<open>event_name\<close> exactly when
  the name passed is none of undefined, null and the empty string, and a \<open>user_data\<close>
  object: the tracker's own data merged with the caller's, without every field that is
  undefined, null or the empty string. Its keys are the tracker's own (user_agent, fbp,
  fbc, source, utm_source, utm_medium, utm_campaign, referer) or keys of the caller's
  user data.
\<close>

theorem track_payload:
  "map_of (payload (track w eventName customData userData)) ''event_name''
     = (if kept eventName then Some eventName else None)
   \<and> map_of (payload (track w eventName customData userData)) ''event_time''
     = Some (JNum (of_int (date_now_track w div 1000)))
   \<and> map_of (payload (track w eventName customData userData)) ''event_id''
     = Some (JStr (generateEventId w))
   \<and> generateEventId w \<noteq> []
   \<and> map_of (payload (track w eventName customData userData)) ''event_source_url''
     = (if location_href w = [] then None else Some (JStr (location_href w)))
   \<and> map_of (payload (track w eventName customData userData)) ''user_data''
     = Some (JObj (clean_entries (merged_user_data w userData)))
   \<and> (\<forall>(k, v) \<in> set (clean_entries (merged_user_data w userData)).
         v \<noteq> JUndefined \<and> v \<noteq> JNull \<and> v \<noteq> JStr []
         \<and> (k \<in> set tracker_user_keys
            \<or> k \<in> fst ` set (entries_of (default_object userData))))"
proof (intro conjI)
  show "\<forall>(k, v) \<in> set (clean_entries (merged_user_data w userData)).
         v \<noteq> JUndefined \<and> v \<noteq> JNull \<and> v \<noteq> JStr []
         \<and> (k \<in> set tracker_user_keys
            \<or> k \<in> fst ` set (entries_of (default_object userData)))"
    using sent_user_data_fields [of _ _ w userData] by blast
qed (simp_all only: sent_event_name sent_event_time sent_event_id sent_event_source_url
      sent_user_data generateEventId_nonempty not_False_eq_True)

theorem track_payload_witness:
  "map_of (payload (track pixel_page (JStr ''Purchase'') JUndefined buyer)) ''event_name''
     = Some (JStr ''Purchase'')
   \<and> map_of (payload (track pixel_page (JStr ''Purchase'') JUndefined buyer)) ''event_time''
     = Some (JNum 1700000000)
   \<and> map_of (payload (track pixel_page (JStr ''Purchase'') JUndefined buyer)) ''event_id''
     = Some (JStr ''ctracking_evt_1700000001000.k3j9x2a'')
   \<and> map_of (payload (track pixel_page (JStr ''Purchase'') JUndefined buyer)) ''user_data''
     = Some (JObj [(''user_agent'', JStr ''UA''), (''fbp'', JStr ''fb.1.17''),
                   (''email'', JStr ''a@b.c'')])
   \<and> (''email'', JStr ''a@b.c'') \<in> set (clean_entries (merged_user_data pixel_page buyer))
   \<and> ''email'' \<in> fst ` set (entries_of (default_object buyer))
   \<and> ''fbp'' \<in> set tracker_user_keys"
proof -
  have clock: "date_now_track pixel_page div 1000 = 1700000000"
    by (simp add: pixel_page_def)
  have caller: "''email'' \<in> fst ` set (entries_of (default_object buyer))"
    by (simp add: buyer_def default_object_def)
  have own: "''fbp'' \<in> set tracker_user_keys"
    by (simp add: tracker_user_keys_def)
  from track_payload [of pixel_page "JStr ''Purchase''" JUndefined buyer] caller own
  show ?thesis
    by (simp add: pixel_page_merged_buyer pixel_page_event_id kept_def clock)
qed

text \<open>
  C8 as stated fails on a page that carries the \<open>_fbp\<close> cookie when the name passed is
  the empty string: the payload has no \<open>event_name\<close>, and its \<open>user_data\<close> has the key
  \<open>fbp\<close>, which is not a key of the schema.
\<close>

theorem track_payload_counterexample:
  "map_of (payload (track pixel_page (JStr []) JUndefined JUndefined)) ''event_name'' = None
   \<and> map_of (payload (track pixel_page (JStr []) JUndefined JUndefined)) ''user_data''
     = Some (JObj [(''user_agent'', JStr ''UA''), (''fbp'', JStr ''fb.1.17'')])
   \<and> \<not> schema_user_key ''fbp''
   \<and> \<not> claimed_payload (payload (track pixel_page (JStr []) JUndefined JUndefined))"
proof -
  have name: "map_of (payload (track pixel_page (JStr []) JUndefined JUndefined)) ''event_name''
      = None"
    by (simp add: sent_event_name kept_def)
  have data: "map_of (payload (track pixel_page (JStr []) JUndefined JUndefined)) ''user_data''
      = Some (JObj [(''user_agent'', JStr ''UA''), (''fbp'', JStr ''fb.1.17'')])"
    by (simp add: sent_user_data pixel_page_merged_none)
  have key: "\<not> schema_user_key ''fbp''"
    by (simp add: schema_user_key_def)
  have "\<not> claimed_payload (payload (track pixel_page (JStr []) JUndefined JUndefined))"
    by (simp add: claimed_payload_def name)
  with name data key show ?thesis
    by simp
qed

section \<open>Properties of the Health Scorer\<close>

lemma MAX_POINTS_10: "MAX_POINTS = 10"
  by (simp add: MAX_POINTS_def EMAIL_WEIGHT_def PHONE_WEIGHT_def BROWSER_ID_WEIGHT_def
      CLICK_ID_WEIGHT_def USER_AGENT_WEIGHT_def)

lemma event_points_weighted:
  "event_points e =
     (if email (identifiers e) \<noteq> None then 3 else 0)
     + (if phone (identifiers e) \<noteq> None then 2 else 0)
     + (if browser_id (identifiers e) \<noteq> None then 2 else 0)
     + (if click_id (identifiers e) \<noteq> None then 2 else 0)
     + (if user_agent (identifiers e) \<noteq> None then 1 else 0)"
  by (simp add: event_points_def present_def EMAIL_WEIGHT_def PHONE_WEIGHT_def
      BROWSER_ID_WEIGHT_def CLICK_ID_WEIGHT_def USER_AGENT_WEIGHT_def split: option.splits)

lemma event_points_le: "event_points e \<le> 10"
  by (simp add: event_points_weighted)

lemma event_score_range: "0 \<le> event_score e \<and> event_score e \<le> 10"
proof -
  have "(of_nat (event_points e) :: rat) \<le> of_nat 10"
    using event_points_le [of e] by (simp only: of_nat_le_iff)
  then show ?thesis
    by (simp add: event_score_def MAX_POINTS_10)
qed

lemma sum_scores_range:
  "0 \<le> sum_list (map event_score sample)
   \<and> sum_list (map event_score sample) \<le> 10 * of_nat (length sample)"
proof (induction sample)
  case Nil
  show ?case by simp
next
  case (Cons e es)
  with event_score_range [of e] show ?case
    by (simp add: algebra_simps)
qed

lemma average_range:
  assumes "sample \<noteq> []"
  shows "0 \<le> sum_list (map event_score sample) / of_nat (length sample)
         \<and> sum_list (map event_score sample) / of_nat (length sample) \<le> 10"
proof -
  have pos: "(0::rat) < of_nat (length sample)"
    using assms by simp
  show ?thesis
    using sum_scores_range [of sample] pos
    by (simp add: divide_le_eq)
qed

lemma status_of_iff:
  "(status_of s = Healthy \<longleftrightarrow> 7 \<le> s)
   \<and> (status_of s = Warning \<longleftrightarrow> 4 \<le> s \<and> s < 7)
   \<and> (status_of s = Failing \<longleftrightarrow> s < 4)"
  by (auto simp: status_of_def HEALTHY_THRESHOLD_def WARNING_THRESHOLD_def)

lemma score_member:
  assumes "m \<in> set (score window store wid)"
  shows "m = metric_of (metric_event_name m) (sample_of window store wid (metric_event_name m))
         \<and> sample_of window store wid (metric_event_name m) \<noteq> []"
proof -
  from assms obtain name where
    n: "name \<in> set (map event_name (considered_events window store wid))"
    and m: "m = metric_of name (sample_of window store wid name)"
    by (auto simp: score_def)
  have nm: "metric_event_name m = name"
    by (simp add: m metric_of_def Let_def)
  from n have "sample_of window store wid name \<noteq> []"
    by (auto simp: sample_of_def filter_empty_conv)
  with m nm show ?thesis
    by simp
qed

lemma score_only_user_agent:
  "score (\<lambda>es. es) [sample_event only_user_agent] 7
     = [\<lparr>metric_event_name = ''Purchase'', emq_score = 1, metric_status = Failing,
         sample_count = 1\<rparr>]"
  by code_simp

lemma score_all_identifiers:
  "score (\<lambda>es. es) [sample_event all_identifiers] 7
     = [\<lparr>metric_event_name = ''Purchase'', emq_score = 10, metric_status = Healthy,
         sample_count = 1\<rparr>]"
  by code_simp

lemma score_three_purchases:
  "score (\<lambda>es. es) three_purchases 7
     = [\<lparr>metric_event_name = ''Purchase'', emq_score = 11 / 2, metric_status = Warning,
         sample_count = 2\<rparr>]"
  by code_simp

lemma sample_three_purchases:
  "sample_of (\<lambda>es. es) three_purchases 7 ''Purchase''
     = [sample_event all_identifiers, sample_event only_user_agent]"
  by code_simp

lemma event_score_weighted:
  "event_score e =
     of_nat ((if email (identifiers e) \<noteq> None then 3 else 0)
             + (if phone (identifiers e) \<noteq> None then 2 else 0)
             + (if browser_id (identifiers e) \<noteq> None then 2 else 0)
             + (if click_id (identifiers e) \<noteq> None then 2 else 0)
             + (if user_agent (identifiers e) \<noteq> None then 1 else 0)) / 10 * 10"
  unfolding event_score_def MAX_POINTS_10 event_points_weighted by simp

lemma event_score_fun:
  "event_score =
     (\<lambda>e. of_nat ((if email (identifiers e) \<noteq> None then 3 else 0)
             + (if phone (identifiers e) \<noteq> None then 2 else 0)
             + (if browser_id (identifiers e) \<noteq> None then 2 else 0)
             + (if click_id (identifiers e) \<noteq> None then 2 else 0)
             + (if user_agent (identifiers e) \<noteq> None then 1 else 0)) / 10 * 10)"
  by (rule ext) (rule event_score_weighted)

lemma metric_of_fields:
  "emq_score (metric_of name sample) = sum_list (map event_score sample) / of_nat (length sample)
   \<and> metric_status (metric_of name sample) = status_of (emq_score (metric_of name sample))
   \<and> sample_count (metric_of name sample) = length sample"
  by (simp add: metric_of_def Let_def)

text \<open>
  C2. For every metric the Health Scorer emits for a website, the score is the average,
  over the sample of that event name, of the per-event weighted identifier sum (email 3,
  phone 2, browser_id 2, click_id 2, user_agent 1) divided by the maximum sum 10 and
  multiplied by 10; it lies between 0 and 10; the status is healthy exactly from 7,
  warning exactly from 4 to below 7, error exactly below 4. A single event with only
  user_agent scores 1 and has status error; a single event with all five identifiers
  scores 10 and is healthy.
\<close>

theorem health_scorer_metric:
  "(\<forall>m \<in> set (score window store wid).
       sample_of window store wid (metric_event_name m) \<noteq> []
     \<and> sample_count m = length (sample_of window store wid (metric_event_name m))
     \<and> emq_score m =
         (\<Sum>e\<leftarrow>sample_of window store wid (metric_event_name m).
            of_nat ((if email (identifiers e) \<noteq> None then 3 else 0)
                    + (if phone (identifiers e) \<noteq> None then 2 else 0)
                    + (if browser_id (identifiers e) \<noteq> None then 2 else 0)
                    + (if click_id (identifiers e) \<noteq> None then 2 else 0)
                    + (if user_agent (identifiers e) \<noteq> None then 1 else 0)) / 10 * 10)
         / of_nat (length (sample_of window store wid (metric_event_name m)))
     \<and> 0 \<le> emq_score m \<and> emq_score m \<le> 10
     \<and> (metric_status m = Healthy \<longleftrightarrow> 7 \<le> emq_score m)
     \<and> (metric_status m = Warning \<longleftrightarrow> 4 \<le> emq_score m \<and> emq_score m < 7)
     \<and> (metric_status m = Failing \<longleftrightarrow> emq_score m < 4))
   \<and> score (\<lambda>es. es) [sample_event only_user_agent] 7
       = [\<lparr>metric_event_name = ''Purchase'', emq_score = 1, metric_status = Failing,
           sample_count = 1\<rparr>]
   \<and> score (\<lambda>es. es) [sample_event all_identifiers] 7
       = [\<lparr>metric_event_name = ''Purchase'', emq_score = 10, metric_status = Healthy,
           sample_count = 1\<rparr>]"
proof (intro conjI ballI)
  fix m
  assume "m \<in> set (score window store wid)"
  then have m: "m = metric_of (metric_event_name m) (sample_of window store wid (metric_event_name m))"
    and ne: "sample_of window store wid (metric_event_name m) \<noteq> []"
    using score_member by blast+
  define S where "S = sample_of window store wid (metric_event_name m)"
  have emq: "emq_score m = sum_list (map event_score S) / of_nat (length S)"
    and st: "metric_status m = status_of (emq_score m)"
    and cnt: "sample_count m = length S"
    using metric_of_fields [of "metric_event_name m" S] m unfolding S_def by metis+
  show "sample_of window store wid (metric_event_name m) \<noteq> []"
    by (rule ne)
  show "sample_count m = length (sample_of window store wid (metric_event_name m))"
    using cnt by (simp add: S_def)
  show "emq_score m =
         (\<Sum>e\<leftarrow>sample_of window store wid (metric_event_name m).
            of_nat ((if email (identifiers e) \<noteq> None then 3 else 0)
                    + (if phone (identifiers e) \<noteq> None then 2 else 0)
                    + (if browser_id (identifiers e) \<noteq> None then 2 else 0)
                    + (if click_id (identifiers e) \<noteq> None then 2 else 0)
                    + (if user_agent (identifiers e) \<noteq> None then 1 else 0)) / 10 * 10)
         / of_nat (length (sample_of window store wid (metric_event_name m)))"
    using emq unfolding S_def event_score_fun .
  show "0 \<le> emq_score m" and "emq_score m \<le> 10"
    using average_range [of S] ne emq by (simp_all add: S_def)
  show "metric_status m = Healthy \<longleftrightarrow> 7 \<le> emq_score m"
    and "metric_status m = Warning \<longleftrightarrow> 4 \<le> emq_score m \<and> emq_score m < 7"
    and "metric_status m = Failing \<longleftrightarrow> emq_score m < 4"
    using status_of_iff [of "emq_score m"] st by simp_all
next
  show "score (\<lambda>es. es) [sample_event only_user_agent] 7
       = [\<lparr>metric_event_name = ''Purchase'', emq_score = 1, metric_status = Failing,
           sample_count = 1\<rparr>]"
    by (rule score_only_user_agent)
  show "score (\<lambda>es. es) [sample_event all_identifiers] 7
       = [\<lparr>metric_event_name = ''Purchase'', emq_score = 10, metric_status = Healthy,
           sample_count = 1\<rparr>]"
    by (rule score_all_identifiers)
qed

theorem health_scorer_metric_witness:
  "score (\<lambda>es. es) three_purchases 7
     = [\<lparr>metric_event_name = ''Purchase'', emq_score = 11 / 2, metric_status = Warning,
         sample_count = 2\<rparr>]
   \<and> sample_of (\<lambda>es. es) three_purchases 7 ''Purchase''
     = [sample_event all_identifiers, sample_event only_user_agent]
   \<and> (4::rat) \<le> 11 / 2 \<and> (11::rat) / 2 < 7"
  using health_scorer_metric [of "\<lambda>es. es" three_purchases 7]
  by (simp add: score_three_purchases sample_three_purchases)

section \<open>Properties of the Alert Generator and of AlertsDisplay\<close>

lemma number_alerts_empty: "number_alerts i xs = [] \<longleftrightarrow> xs = []"
  by (cases xs) auto

lemma map_filter_empty: "List.map_filter f xs = [] \<longleftrightarrow> (\<forall>x \<in> set xs. f x = None)"
  by (induction xs) (auto simp: List.map_filter_simps split: option.splits)

lemma metric_alert_none: "metric_alert fmt m = None \<longleftrightarrow> metric_status m = Healthy"
  by (simp add: metric_alert_def split: health_status.splits)

lemma alerts_of_empty:
  "alerts_of fmt threshold metrics groups = [] \<longleftrightarrow>
     (\<forall>m \<in> set metrics. metric_status m = Healthy) \<and> (\<forall>g \<in> set groups. dup_count g < threshold)"
  by (auto simp: alerts_of_def number_alerts_empty map_filter_empty metric_alert_none filter_empty_conv)

lemma view_after_empty_fetch:
  "truthy websiteId \<Longrightarrow> \<not> (case error st of None \<Rightarrow> False | Some m \<Rightarrow> m \<noteq> []) \<Longrightarrow>
   AlertsDisplay (fetchAlerts websiteId (Fulfilled []) st) = AllNominal"
  by (simp add: AlertsDisplay_def fetchAlerts_def)

text \<open>
  C5. The Alert Generator returns no alert exactly when every metric is healthy and no
  duplicate group's count reaches the threshold; the endpoint then answers with the
  empty array, a success; and \<open>AlertsDisplay\<close>, once \<open>fetchAlerts\<close> has received that
  answer for its website (and no error message is held), renders the all-nominal
  panel.
\<close>

theorem alerts_empty_iff_nominal:
  "(alerts_of fmt threshold metrics groups = [] \<longleftrightarrow>
      (\<forall>m \<in> set metrics. metric_status m = Healthy)
      \<and> (\<forall>g \<in> set groups. dup_count g < threshold))
   \<and> (alerts_of fmt threshold metrics groups = [] \<longrightarrow>
        alerts_endpoint fmt threshold metrics groups = Fulfilled [])
   \<and> (alerts_of fmt threshold metrics groups = [] \<and> truthy websiteId
        \<and> \<not> (case error st of None \<Rightarrow> False | Some m \<Rightarrow> m \<noteq> [])
      \<longrightarrow> AlertsDisplay (fetchAlerts websiteId (alerts_endpoint fmt threshold metrics groups) st)
          = AllNominal)"
proof (intro conjI impI)
  show "alerts_of fmt threshold metrics groups = [] \<longleftrightarrow>
      (\<forall>m \<in> set metrics. metric_status m = Healthy)
      \<and> (\<forall>g \<in> set groups. dup_count g < threshold)"
    by (rule alerts_of_empty)
next
  assume "alerts_of fmt threshold metrics groups = []"
  then show "alerts_endpoint fmt threshold metrics groups = Fulfilled []"
    by (simp add: alerts_endpoint_def)
next
  assume a: "alerts_of fmt threshold metrics groups = [] \<and> truthy websiteId
        \<and> \<not> (case error st of None \<Rightarrow> False | Some m \<Rightarrow> m \<noteq> [])"
  then have "alerts_endpoint fmt threshold metrics groups = Fulfilled []"
    by (simp add: alerts_endpoint_def)
  with a show "AlertsDisplay (fetchAlerts websiteId (alerts_endpoint fmt threshold metrics groups) st)
          = AllNominal"
    by (simp add: view_after_empty_fetch)
qed

theorem alerts_empty_iff_nominal_witness:
  "alerts_of (\<lambda>q. ''?'') DUPLICATE_ALERT_THRESHOLD [healthy_purchase] [pair_of_purchases] = []
   \<and> metric_status healthy_purchase = Healthy
   \<and> dup_count pair_of_purchases < DUPLICATE_ALERT_THRESHOLD
   \<and> alerts_endpoint (\<lambda>q. ''?'') DUPLICATE_ALERT_THRESHOLD [healthy_purchase] [pair_of_purchases] = Fulfilled []
   \<and> truthy (JNum 7)
   \<and> AlertsDisplay (fetchAlerts (JNum 7)
        (alerts_endpoint (\<lambda>q. ''?'') DUPLICATE_ALERT_THRESHOLD [healthy_purchase] [pair_of_purchases])
        initial_alerts_state) = AllNominal"
  using alerts_empty_iff_nominal [of "\<lambda>q. ''?''" DUPLICATE_ALERT_THRESHOLD "[healthy_purchase]"
      "[pair_of_purchases]" "JNum 7" initial_alerts_state]
  by (simp add: healthy_purchase_def pair_of_purchases_def DUPLICATE_ALERT_THRESHOLD_def
      initial_alerts_state_def alerts_endpoint_def)

end
